theory Spec2Isabelle
  imports Complex_Main
begin

section \<open>JavaScript numbers\<close>

text \<open>
  The scanner computes with JavaScript numbers. They are modelled here as exact reals
  extended with the three special values that division and the comparisons of the
  source can produce or meet. Rounding to the nearest double is not modelled, and
  zero is the positive zero: reserves, prices and fees of the scanner are never
  negative, so a negative zero does not arise as a divisor.
\<close>

datatype jsnum = Fin real | PosInf | NegInf | NaN

fun jneg :: "jsnum \<Rightarrow> jsnum" where
  "jneg (Fin x) = Fin (- x)"
| "jneg PosInf = NegInf"
| "jneg NegInf = PosInf"
| "jneg NaN = NaN"

fun jadd :: "jsnum \<Rightarrow> jsnum \<Rightarrow> jsnum" where
  "jadd (Fin x) (Fin y) = Fin (x + y)"
| "jadd NaN b = NaN"
| "jadd a NaN = NaN"
| "jadd PosInf NegInf = NaN"
| "jadd NegInf PosInf = NaN"
| "jadd PosInf b = PosInf"
| "jadd NegInf b = NegInf"
| "jadd (Fin x) b = b"

definition jsub :: "jsnum \<Rightarrow> jsnum \<Rightarrow> jsnum" where
  "jsub a b = jadd a (jneg b)"

fun jmul :: "jsnum \<Rightarrow> jsnum \<Rightarrow> jsnum" where
  "jmul (Fin x) (Fin y) = Fin (x * y)"
| "jmul NaN b = NaN"
| "jmul a NaN = NaN"
| "jmul (Fin x) b = (if x = 0 then NaN else if 0 < x then b else jneg b)"
| "jmul a (Fin y) = (if y = 0 then NaN else if 0 < y then a else jneg a)"
| "jmul PosInf b = b"
| "jmul NegInf b = jneg b"

fun jdiv :: "jsnum \<Rightarrow> jsnum \<Rightarrow> jsnum" where
  "jdiv (Fin x) (Fin y) =
     (if y \<noteq> 0 then Fin (x / y)
      else if x = 0 then NaN else if 0 < x then PosInf else NegInf)"
| "jdiv NaN b = NaN"
| "jdiv a NaN = NaN"
| "jdiv (Fin x) b = Fin 0"
| "jdiv a (Fin y) = (if 0 \<le> y then a else jneg a)"
| "jdiv a b = NaN"

text \<open>The comparisons \<open><\<close>, \<open>>\<close> and \<open><=\<close>: false as soon as one side is NaN.\<close>

fun jlt :: "jsnum \<Rightarrow> jsnum \<Rightarrow> bool" where
  "jlt (Fin x) (Fin y) = (x < y)"
| "jlt NaN b = False"
| "jlt a NaN = False"
| "jlt PosInf b = False"
| "jlt a NegInf = False"
| "jlt a b = True"

definition jgt :: "jsnum \<Rightarrow> jsnum \<Rightarrow> bool" where
  "jgt a b = jlt b a"

fun jle :: "jsnum \<Rightarrow> jsnum \<Rightarrow> bool" where
  "jle NaN b = False"
| "jle a NaN = False"
| "jle a b = (\<not> jlt b a)"

section \<open>Data model (types.ts)\<close>

datatype TokenPair = WBTC_USDT | ETH_USDT | ETH_DAI

fun pair_name :: "TokenPair \<Rightarrow> string" where
  "pair_name WBTC_USDT = ''WBTC/USDT''"
| "pair_name ETH_USDT = ''ETH/USDT''"
| "pair_name ETH_DAI = ''ETH/DAI''"

record PriceData =
  exchange :: string
  symbol :: TokenPair
  bid :: jsnum
  ask :: jsnum
  tradingFee :: jsnum
  timestamp :: int

datatype LogType = Info | Success | Warning | Error | Arb | Swap

text \<open>A thrown JavaScript error, with its message.\<close>

datatype exn = JsError string

fun message :: "exn \<Rightarrow> string" where
  "message (JsError m) = m"

section \<open>Selection and profit arithmetic of scanArbitrage\<close>

text \<open>
  \<open>Array.prototype.reduce\<close> without an initial value: the first element starts the
  accumulator, and an empty array throws a TypeError.
\<close>

definition reduce :: "('a \<Rightarrow> 'a \<Rightarrow> 'a) \<Rightarrow> 'a list \<Rightarrow> exn + 'a" where
  "reduce f xs =
     (case xs of
        [] \<Rightarrow> Inl (JsError ''Reduce of empty array with no initial value'')
      | x # rest \<Rightarrow> Inr (foldl f x rest))"

record evaluation =
  lowestAsk :: PriceData
  highestBid :: PriceData
  buyPrice :: jsnum
  sellPrice :: jsnum
  profit :: jsnum
  buyFee :: jsnum
  sellFee :: jsnum
  profitAfterFees :: jsnum
  profitPercentage :: jsnum

text \<open>
  Lines 233 to 246 of scanArbitrage: the two reductions and the fee-adjusted profit,
  with every local constant of the source kept as a field.
\<close>

definition evaluate :: "PriceData list \<Rightarrow> exn + evaluation" where
  "evaluate validResults =
     (case reduce (\<lambda>min curr. if jlt (ask curr) (ask min) then curr else min) validResults of
        Inl e \<Rightarrow> Inl e
      | Inr lo \<Rightarrow>
     (case reduce (\<lambda>max curr. if jgt (bid curr) (bid max) then curr else max) validResults of
        Inl e \<Rightarrow> Inl e
      | Inr hi \<Rightarrow>
         (let buyPrice = ask lo;
              sellPrice = bid hi;
              profit = jsub sellPrice buyPrice;
              buyFee = jmul buyPrice (tradingFee lo);
              sellFee = jmul sellPrice (tradingFee hi);
              profitAfterFees = jsub (jsub profit buyFee) sellFee;
              profitPercentage = jmul (jdiv profitAfterFees buyPrice) (Fin 100)
          in Inr \<lparr>lowestAsk = lo, highestBid = hi, buyPrice = buyPrice,
                   sellPrice = sellPrice, profit = profit, buyFee = buyFee,
                   sellFee = sellFee, profitAfterFees = profitAfterFees,
                   profitPercentage = profitPercentage\<rparr>)))"

text \<open>The test of line 248: the opportunity is profitable.\<close>

definition profitable :: "evaluation \<Rightarrow> bool" where
  "profitable ev = jgt (profitPercentage ev) (Fin 0)"

section \<open>The outside world and the state of the process\<close>

text \<open>
  The calls that leave the process are answered by the world: the two pair-contract
  calls and the factory call (keyed by the contract address), the HTTP post to the
  notification service (status and rendered body of the response), and three library
  renderings that are not code of this repository: the ISO rendering of a date, the
  default rendering of a number, and the decimal rendering of a scaled integer.
  A call that throws answers \<open>Inl\<close>. The answers do not change during one scan.
\<close>

record world =
  getReserves :: "string \<Rightarrow> exn + nat \<times> nat"
  token0 :: "string \<Rightarrow> exn + string"
  feeTo :: "string \<Rightarrow> exn + string"
  axiosPost :: "string \<Rightarrow> exn + nat \<times> string"
  toISOString :: "int \<Rightarrow> string"
  numberToString :: "real \<Rightarrow> string"
  formatUnits :: "nat \<Rightarrow> nat \<Rightarrow> string"

datatype effect = Log LogType string | Console string | Post string

text \<open>
  The mutable state: the clock read by \<open>Date.now()\<close> (milliseconds), the one
  module-level variable \<open>lastCallTime\<close>, and what the process has written so far.
  The clock advances only while the rate limiter sleeps; the latency of the network
  is not modelled. An asynchronous function is run to completion from a state and
  returns the state it leaves with its settled promise (\<open>Inl\<close> when rejected).
\<close>

record state =
  clock :: int
  lastCallTime :: int
  out :: "effect list"

record DexConfig =
  pairAddress :: "TokenPair \<Rightarrow> string"
  factory :: string

definition RATE_LIMIT_DELAY :: int where
  "RATE_LIMIT_DELAY = 1000"

definition SYMBOLS :: "TokenPair list" where
  "SYMBOLS = [WBTC_USDT, ETH_USDT, ETH_DAI]"

definition DEXES :: "(string \<times> DexConfig) list" where
  "DEXES =
     [(''uniswap'',
       \<lparr>pairAddress = (\<lambda>s. case s of
            WBTC_USDT \<Rightarrow> ''0x004375dff511095cc5a197a54140a24efef3a416''
          | ETH_USDT \<Rightarrow> ''0x0d4a11d5eeaac28ec3f61d100daf4d40471f1852''
          | ETH_DAI \<Rightarrow> ''0xa478c2975ab1ea89e8196811f51a7b7ade33eb11''),
        factory = ''0x5C69bEe701ef814a2B6a3EDD4B1652CB9cc5aA6f''\<rparr>),
      (''sushiswap'',
       \<lparr>pairAddress = (\<lambda>s. case s of
            WBTC_USDT \<Rightarrow> ''0xcebff86a11d4ed077e8c571f19e9f2c8ae88eafc''
          | ETH_USDT \<Rightarrow> ''0x06da0fd433c1a5d7a4faa01111c044910a184553''
          | ETH_DAI \<Rightarrow> ''0xc3d03e4f041fd4cd388c549ee2a29a9e5075882f''),
        factory = ''0xC0AEe478e3658e2610c5F7A4A2E1777cE9e4f2Ac''\<rparr>)]"

definition ZeroAddress :: string where
  "ZeroAddress = ''0x0000000000000000000000000000000000000000''"

text \<open>The message of the TypeError thrown by reading a property of \<open>undefined\<close>.\<close>

definition undefined_property :: exn where
  "undefined_property = JsError ''undefined is not an object''"

section \<open>Helper functions\<close>

definition console_log :: "string \<Rightarrow> state \<Rightarrow> state" where
  "console_log text st = st\<lparr>out := out st @ [Console text]\<rparr>"

definition sendTelegramMessage :: "world \<Rightarrow> string \<Rightarrow> state \<Rightarrow> state" where
  "sendTelegramMessage w msg st =
     (let st1 = st\<lparr>out := out st @ [Post msg]\<rparr> in
      case axiosPost w msg of
        Inl e \<Rightarrow> console_log (''Error sending Telegram message: '' @ message e) st1
      | Inr (status, body) \<Rightarrow>
          if status \<noteq> 200
          then console_log (''Failed to send Telegram message: '' @ body) st1
          else st1)"

fun replace_first :: "char \<Rightarrow> char \<Rightarrow> string \<Rightarrow> string" where
  "replace_first a b [] = []"
| "replace_first a b (c # cs) = (if c = a then b # cs else c # replace_first a b cs)"

definition getFormattedTimestamp :: "world \<Rightarrow> state \<Rightarrow> string" where
  "getFormattedTimestamp w st =
     take 19 (replace_first (CHR ''T'') (CHR '' '') (toISOString w (clock st)))"

text \<open>
  \<open>applyRateLimit\<close> takes no argument: it reads and writes the one variable
  \<open>lastCallTime\<close>. The timer is taken to fire exactly when it is due.
\<close>

definition applyRateLimit :: "state \<Rightarrow> state" where
  "applyRateLimit st =
     (let now = clock st;
          timeSinceLastCall = now - lastCallTime st;
          st1 = (if timeSinceLastCall < RATE_LIMIT_DELAY
                 then st\<lparr>clock := clock st + (RATE_LIMIT_DELAY - timeSinceLastCall)\<rparr>
                 else st)
      in st1\<lparr>lastCallTime := clock st1\<rparr>)"

text \<open>The console line of \<open>logMessage\<close>, without its time stamp and colours.\<close>

definition logMessage :: "LogType \<Rightarrow> string \<Rightarrow> state \<Rightarrow> state" where
  "logMessage type msg st = st\<lparr>out := out st @ [Log type msg]\<rparr>"

definition fetchTradingFee_try ::
  "world \<Rightarrow> (string \<times> DexConfig) list \<Rightarrow> string \<Rightarrow> string \<Rightarrow> state \<Rightarrow> state \<times> (exn + jsnum)" where
  "fetchTradingFee_try w dexes dexName pairAddr st =
     (let st1 = applyRateLimit st in
      case map_of dexes dexName of
        None \<Rightarrow> (st1, Inl undefined_property)
      | Some dex \<Rightarrow>
          (let fee = Fin 0.003 in
           case feeTo w (factory dex) of
             Inl e \<Rightarrow> (st1, Inl e)
           | Inr feeToAddr \<Rightarrow>
               (st1, Inr (if feeToAddr = ZeroAddress then Fin 0.003 else fee))))"

definition fetchTradingFee ::
  "world \<Rightarrow> (string \<times> DexConfig) list \<Rightarrow> string \<Rightarrow> string \<Rightarrow> state \<Rightarrow> state \<times> (exn + jsnum)" where
  "fetchTradingFee w dexes dexName pairAddr st =
     (case fetchTradingFee_try w dexes dexName pairAddr st of
        (st1, Inr fee) \<Rightarrow> (st1, Inr fee)
      | (st1, Inl e) \<Rightarrow>
          (logMessage Error
             (''Error fetching fee for '' @ dexName @ '' '' @ pairAddr @ '': '' @ message e) st1,
           Inr (Fin 0.003)))"

text \<open>
  \<open>Number(ethers.formatUnits(reserve, decimals))\<close>: the integer reserve divided by
  the power of ten of its token's decimals.
\<close>

definition units :: "nat \<Rightarrow> nat \<Rightarrow> jsnum" where
  "units reserve decimals = Fin (real reserve / 10 ^ decimals)"

text \<open>Lines 146 to 149: the decimals of the two reserves, chosen by the pair.\<close>

definition decimals0 :: "TokenPair \<Rightarrow> nat" where
  "decimals0 s = (if s = ETH_DAI then 18 else if s = WBTC_USDT then 8 else 18)"

definition decimals1 :: "TokenPair \<Rightarrow> nat" where
  "decimals1 s = (if s = ETH_DAI then 18 else if s = WBTC_USDT then 6 else 6)"

text \<open>Lines 151 to 154: the price read off the two reserves.\<close>

definition price :: "TokenPair \<Rightarrow> nat \<Rightarrow> nat \<Rightarrow> jsnum" where
  "price s reserve0 reserve1 =
     (let reserve0Num = units reserve0 (decimals0 s);
          reserve1Num = units reserve1 (decimals1 s)
      in jdiv reserve1Num reserve0Num)"

definition fetchDexPrice_try ::
  "world \<Rightarrow> (string \<times> DexConfig) list \<Rightarrow> string \<Rightarrow> TokenPair \<Rightarrow> state \<Rightarrow> state \<times> (exn + PriceData)" where
  "fetchDexPrice_try w dexes dexName s st =
     (let st1 = applyRateLimit st in
      case map_of dexes dexName of
        None \<Rightarrow> (st1, Inl undefined_property)
      | Some dex \<Rightarrow>
          (let pairAddr = pairAddress dex s in
           case getReserves w pairAddr of
             Inl e \<Rightarrow> (st1, Inl e)
           | Inr (reserve0, reserve1) \<Rightarrow>
          (case token0 w pairAddr of
             Inl e \<Rightarrow> (st1, Inl e)
           | Inr t0 \<Rightarrow>
               (let p = price s reserve0 reserve1;
                    b = jmul p (Fin 0.998);
                    a = jmul p (Fin 1.002)
                in case fetchTradingFee w dexes dexName pairAddr st1 of
                     (st2, Inl e) \<Rightarrow> (st2, Inl e)
                   | (st2, Inr fee) \<Rightarrow>
                       (st2, Inr \<lparr>exchange = dexName, symbol = s, bid = b, ask = a,
                                   tradingFee = fee, timestamp = clock st2\<rparr>)))))"

definition fetchDexPrice ::
  "world \<Rightarrow> (string \<times> DexConfig) list \<Rightarrow> string \<Rightarrow> TokenPair \<Rightarrow> state
     \<Rightarrow> state \<times> (exn + PriceData option)" where
  "fetchDexPrice w dexes dexName s st =
     (case fetchDexPrice_try w dexes dexName s st of
        (st1, Inr q) \<Rightarrow> (st1, Inr (Some q))
      | (st1, Inl e) \<Rightarrow>
          (logMessage Error
             (''Error fetching '' @ dexName @ '' '' @ pair_name s @ '': '' @ message e) st1,
           Inr None))"

section \<open>Messages\<close>

definition digit :: "nat \<Rightarrow> char" where
  "digit d = ''0123456789'' ! d"

fun show_nat :: "nat \<Rightarrow> string" where
  "show_nat n = (if n < 10 then [digit n] else show_nat (n div 10) @ [digit (n mod 10)])"

declare show_nat.simps [simp del]

text \<open>
  \<open>x.toFixed(2)\<close>: the sign, then the integer \<open>n\<close> nearest to \<open>100 * |x|\<close> (the larger
  one of two) written with a point before its last two digits. A number that is not
  finite, or of magnitude \<open>10^21\<close> and more, gets its default rendering.
\<close>

fun toFixed2 :: "world \<Rightarrow> jsnum \<Rightarrow> string" where
  "toFixed2 w NaN = ''NaN''"
| "toFixed2 w PosInf = ''Infinity''"
| "toFixed2 w NegInf = ''-Infinity''"
| "toFixed2 w (Fin x) =
     (if 10 ^ 21 \<le> \<bar>x\<bar> then numberToString w x
      else (if x < 0 then ''-'' else []) @
           (let n = nat \<lfloor>\<bar>x\<bar> * 100 + 1 / 2\<rfloor>
            in show_nat (n div 100) @ ''.'' @ [digit (n mod 100 div 10), digit (n mod 10)]))"

text \<open>The three pictographs of the messages, as their UTF-8 bytes, and the line feed.\<close>

definition siren :: string where
  "siren = [CHR 0xF0, CHR 0x9F, CHR 0x9A, CHR 0xA8]"

definition bar_chart :: string where
  "bar_chart = [CHR 0xF0, CHR 0x9F, CHR 0x93, CHR 0x8A]"

definition warning_sign :: string where
  "warning_sign = [CHR 0xE2, CHR 0x9A, CHR 0xA0, CHR 0xEF, CHR 0xB8, CHR 0x8F]"

definition nl :: string where
  "nl = [CHR 0x0A]"

text \<open>The two formatters of the TypeScript variant.\<close>

definition formatArbitrageMessage ::
  "world \<Rightarrow> state \<Rightarrow> TokenPair \<Rightarrow> PriceData \<Rightarrow> PriceData \<Rightarrow> jsnum \<Rightarrow> jsnum \<Rightarrow> jsnum \<Rightarrow> jsnum
     \<Rightarrow> string" where
  "formatArbitrageMessage w st s lo hi bFee sFee pAfterFees pPercentage =
     siren @ '' *PROFITABLE OPPORTUNITY* '' @ siren @ nl @
     ''*Time:* '' @ getFormattedTimestamp w st @ nl @
     ''*Pair:* '' @ pair_name s @ nl @
     ''*Buy:* '' @ exchange lo @ '' at $'' @ toFixed2 w (ask lo) @
       '' (Fee: $'' @ toFixed2 w bFee @ '')'' @ nl @
     ''*Sell:* '' @ exchange hi @ '' at $'' @ toFixed2 w (bid hi) @
       '' (Fee: $'' @ toFixed2 w sFee @ '')'' @ nl @
     ''*Total Fees:* $'' @ toFixed2 w (jadd bFee sFee) @ nl @
     ''*Profit After Fees:* $'' @ toFixed2 w pAfterFees @
       '' ('' @ toFixed2 w pPercentage @ ''%)''"

definition formatNonProfitableMessage ::
  "world \<Rightarrow> state \<Rightarrow> TokenPair \<Rightarrow> PriceData \<Rightarrow> PriceData \<Rightarrow> jsnum \<Rightarrow> jsnum \<Rightarrow> jsnum \<Rightarrow> jsnum
     \<Rightarrow> jsnum \<Rightarrow> bool \<Rightarrow> string" where
  "formatNonProfitableMessage w st s lo hi bFee sFee prof pAfterFees pPercentage isSwap =
     (let title = (if isSwap then bar_chart @ '' *SWAP DETECTED*''
                   else bar_chart @ '' *MARKET UPDATE*'')
      in title @ '' - '' @ getFormattedTimestamp w st @ nl @
         ''*Pair:* '' @ pair_name s @ nl @
         ''*Best Buy:* '' @ exchange lo @ '' at $'' @ toFixed2 w (ask lo) @
           '' (Fee: $'' @ toFixed2 w bFee @ '')'' @ nl @
         ''*Best Sell:* '' @ exchange hi @ '' at $'' @ toFixed2 w (bid hi) @
           '' (Fee: $'' @ toFixed2 w sFee @ '')'' @ nl @
         ''*Total Fees:* $'' @ toFixed2 w (jadd bFee sFee) @ nl @
         ''*Potential Profit Before Fees:* $'' @ toFixed2 w prof @ nl @
         ''*Profit After Fees:* $'' @ toFixed2 w pAfterFees @
           '' ('' @ toFixed2 w pPercentage @ ''%)'')"

text \<open>The two formatters of the JavaScript variant.\<close>

definition formatArbitrageMessage_js ::
  "world \<Rightarrow> state \<Rightarrow> TokenPair \<Rightarrow> PriceData \<Rightarrow> PriceData \<Rightarrow> jsnum \<Rightarrow> jsnum \<Rightarrow> jsnum \<Rightarrow> jsnum
     \<Rightarrow> string" where
  "formatArbitrageMessage_js w st s lo hi bFee sFee pAfterFees pPercentage =
     siren @ '' *PROFITABLE OPPORTUNITY* '' @ siren @ nl @
     ''*Time:* '' @ getFormattedTimestamp w st @ nl @
     ''*Pair:* '' @ pair_name s @ nl @
     ''*Buy:* '' @ exchange lo @ '' at $'' @ toFixed2 w (ask lo) @
       '' (Fee: $'' @ toFixed2 w bFee @ '')'' @ nl @
     ''*Sell:* '' @ exchange hi @ '' at $'' @ toFixed2 w (ask hi) @
       '' (Fee: $'' @ toFixed2 w sFee @ '')'' @ nl @
     ''*Total Fees:* $'' @ toFixed2 w (jadd bFee sFee) @ nl @
     ''*Profit After Fees:* $'' @ toFixed2 w pAfterFees @
       '' ('' @ toFixed2 w pPercentage @ ''%)''"

definition formatNonProfitableMessage_js ::
  "world \<Rightarrow> state \<Rightarrow> TokenPair \<Rightarrow> PriceData \<Rightarrow> PriceData \<Rightarrow> jsnum \<Rightarrow> jsnum \<Rightarrow> jsnum \<Rightarrow> jsnum
     \<Rightarrow> jsnum \<Rightarrow> bool \<Rightarrow> string" where
  "formatNonProfitableMessage_js w st s lo hi bFee sFee prof pAfterFees pPercentage isSwap =
     (let title = (if isSwap then bar_chart @ '' *SWAP DETECTED*''
                   else bar_chart @ '' *MARKET UPDATE*'')
      in title @ '' - '' @ getFormattedTimestamp w st @ nl @
         ''*Pair:* '' @ pair_name s @ nl @
         ''*Best Buy:* '' @ exchange lo @ '' at $'' @ toFixed2 w (ask lo) @
           '' (Fee: $'' @ toFixed2 w bFee @ '')'' @ nl @
         ''*Best Sell:* '' @ exchange hi @ '' at $'' @ toFixed2 w (ask hi) @
           '' (Fee: $'' @ toFixed2 w sFee @ '')'' @ nl @
         ''*Total Fees:* $'' @ toFixed2 w (jadd bFee sFee) @ nl @
         ''*Potential Profit Before Fees:* $'' @ toFixed2 w prof @ nl @
         ''*Profit After Fees:* $'' @ toFixed2 w pAfterFees @
           '' ('' @ toFixed2 w pPercentage @ ''%)'')"

section \<open>The scan\<close>

text \<open>
  \<open>Promise.all\<close> over the keys of the table: every fetch is started, here one after the
  other in the order of the keys; the combined promise is rejected when one of them is.
\<close>

fun fetchAll ::
  "world \<Rightarrow> (string \<times> DexConfig) list \<Rightarrow> TokenPair \<Rightarrow> string list \<Rightarrow> state
     \<Rightarrow> state \<times> (exn + PriceData option list)" where
  "fetchAll w dexes s [] st = (st, Inr [])"
| "fetchAll w dexes s (dexName # rest) st =
     (case fetchDexPrice w dexes dexName s st of
        (st1, r) \<Rightarrow>
          (case fetchAll w dexes s rest st1 of
             (st2, rs) \<Rightarrow>
               (st2, case r of
                       Inl e \<Rightarrow> Inl e
                     | Inr x \<Rightarrow> (case rs of Inl e \<Rightarrow> Inl e | Inr xs \<Rightarrow> Inr (x # xs)))))"

text \<open>Lines 222 to 225: the results of all the sources, and those that are not null.\<close>

definition collect ::
  "world \<Rightarrow> (string \<times> DexConfig) list \<Rightarrow> TokenPair \<Rightarrow> state \<Rightarrow> state \<times> (exn + PriceData list)" where
  "collect w dexes s st =
     (case fetchAll w dexes s (map fst dexes) st of
        (st1, Inl e) \<Rightarrow> (st1, Inl e)
      | (st1, Inr results) \<Rightarrow>
          (st1, Inr (map the (filter (\<lambda>r. r \<noteq> None) results))))"

text \<open>The branch that a scan took.\<close>

datatype outcome = NoData | Opportunity evaluation | MarketUpdate evaluation | Failed exn

text \<open>Lines 227 to 276: what scanArbitrage does with the valid results.\<close>

definition report ::
  "world \<Rightarrow> TokenPair \<Rightarrow> bool \<Rightarrow> PriceData list \<Rightarrow> state \<Rightarrow> state \<times> (exn + outcome)" where
  "report w s triggerEvent validResults st =
     (if length validResults = 0
      then (sendTelegramMessage w (warning_sign @ '' No data for '' @ pair_name s)
              (logMessage Error (''No data for '' @ pair_name s) st),
            Inr NoData)
      else
        case evaluate validResults of
          Inl e \<Rightarrow> (st, Inl e)
        | Inr ev \<Rightarrow>
            if jgt (profitPercentage ev) (Fin 0)
            then
              (let msg = formatArbitrageMessage w st s (lowestAsk ev) (highestBid ev)
                           (buyFee ev) (sellFee ev) (profitAfterFees ev) (profitPercentage ev);
                   st1 = logMessage Arb (''Opportunity: '' @ pair_name s) st;
                   st2 = logMessage Arb msg st1
               in (sendTelegramMessage w msg st2, Inr (Opportunity ev)))
            else
              (let msg = formatNonProfitableMessage w st s (lowestAsk ev) (highestBid ev)
                           (buyFee ev) (sellFee ev) (profit ev) (profitAfterFees ev)
                           (profitPercentage ev) triggerEvent;
                   st1 = logMessage Info (''No opportunity: '' @ pair_name s) st;
                   st2 = logMessage Info msg st1
               in (sendTelegramMessage w msg st2, Inr (MarketUpdate ev))))"

definition scanArbitrage ::
  "world \<Rightarrow> (string \<times> DexConfig) list \<Rightarrow> TokenPair \<Rightarrow> bool \<Rightarrow> state \<Rightarrow> state \<times> outcome" where
  "scanArbitrage w dexes s triggerEvent st =
     (case (case collect w dexes s st of
              (st1, Inl e) \<Rightarrow> (st1, Inl e)
            | (st1, Inr validResults) \<Rightarrow> report w s triggerEvent validResults st1) of
        (st2, Inr oc) \<Rightarrow> (st2, oc)
      | (st2, Inl e) \<Rightarrow>
          (logMessage Error
             (''Error in scanArbitrage for '' @ pair_name s @ '': '' @ message e) st2,
           Failed e))"

section \<open>Swap events\<close>

text \<open>
  \<open>setupEventListeners\<close> registers one listener on the pair contract of every pair at
  every exchange. A registration is the address of the contract with the pair and the
  exchange its listener closes over.
\<close>

definition setupEventListeners ::
  "(string \<times> DexConfig) list \<Rightarrow> (string \<times> TokenPair \<times> string) list" where
  "setupEventListeners dexes =
     concat (map (\<lambda>s. map (\<lambda>(dexName, dex). (pairAddress dex s, s, dexName)) dexes) SYMBOLS)"

text \<open>\<open>parts.filter(Boolean).join(" | ")\<close> on strings guarded by conditions.\<close>

fun join :: "string \<Rightarrow> string list \<Rightarrow> string" where
  "join sep [] = []"
| "join sep [x] = x"
| "join sep (x # y # ys) = x @ sep @ join sep (y # ys)"

definition base_name :: "TokenPair \<Rightarrow> string" where
  "base_name s = takeWhile (\<lambda>c. c \<noteq> CHR ''/'') (pair_name s)"

definition quote_name :: "TokenPair \<Rightarrow> string" where
  "quote_name s = tl (dropWhile (\<lambda>c. c \<noteq> CHR ''/'') (pair_name s))"

text \<open>The listener of one registration, called with the four amounts of the event.\<close>

definition swapListener ::
  "world \<Rightarrow> (string \<times> DexConfig) list \<Rightarrow> TokenPair \<Rightarrow> string \<Rightarrow> nat \<times> nat \<times> nat \<times> nat \<Rightarrow> state
     \<Rightarrow> state \<times> outcome" where
  "swapListener w dexes s dexName amounts st =
     (case amounts of
        (amount0In, amount1In, amount0Out, amount1Out) \<Rightarrow>
          (let d0 = (if s = WBTC_USDT then 8 else 18);
               d1 = (if s = ETH_DAI then 18 else 6);
               swapDetails = join '' | ''
                 ((if 0 < amount0In
                   then [''In: '' @ formatUnits w amount0In d0 @ '' '' @ base_name s] else []) @
                  (if 0 < amount1In
                   then [''In: '' @ formatUnits w amount1In d1 @ '' '' @ quote_name s] else []) @
                  (if 0 < amount0Out
                   then [''Out: '' @ formatUnits w amount0Out d0 @ '' '' @ base_name s] else []) @
                  (if 0 < amount1Out
                   then [''Out: '' @ formatUnits w amount1Out d1 @ '' '' @ quote_name s] else []));
               st1 = logMessage Swap (dexName @ '' '' @ pair_name s @ '' - '' @ swapDetails) st
           in scanArbitrage w dexes s True st1))"

text \<open>
  A Swap event of the contract at an address calls the listeners registered on that
  address, in the order of their registration; each runs one scan.
\<close>

fun runListeners ::
  "world \<Rightarrow> (string \<times> DexConfig) list \<Rightarrow> (TokenPair \<times> string) list \<Rightarrow> nat \<times> nat \<times> nat \<times> nat
     \<Rightarrow> state \<Rightarrow> state \<times> outcome list" where
  "runListeners w dexes [] amounts st = (st, [])"
| "runListeners w dexes ((s, dexName) # ls) amounts st =
     (case swapListener w dexes s dexName amounts st of
        (st1, oc) \<Rightarrow>
          (case runListeners w dexes ls amounts st1 of
             (st2, ocs) \<Rightarrow> (st2, oc # ocs)))"

definition listenersOn ::
  "(string \<times> DexConfig) list \<Rightarrow> string \<Rightarrow> (TokenPair \<times> string) list" where
  "listenersOn dexes addr =
     map snd (filter (\<lambda>reg. fst reg = addr) (setupEventListeners dexes))"

definition emitSwap ::
  "world \<Rightarrow> (string \<times> DexConfig) list \<Rightarrow> string \<Rightarrow> nat \<times> nat \<times> nat \<times> nat \<Rightarrow> state
     \<Rightarrow> state \<times> outcome list" where
  "emitSwap w dexes addr amounts st = runListeners w dexes (listenersOn dexes addr) amounts st"

section \<open>Reference definitions and sample inputs\<close>

text \<open>
  Whether a fetch from an exchange can succeed in a world: the exchange is in the table
  and the two calls to its pair contract answer. It does not depend on the state.
\<close>

definition fetchable :: "world \<Rightarrow> (string \<times> DexConfig) list \<Rightarrow> TokenPair \<Rightarrow> string \<Rightarrow> bool" where
  "fetchable w dexes s dexName =
     (case map_of dexes dexName of
        None \<Rightarrow> False
      | Some dex \<Rightarrow>
          (case getReserves w (pairAddress dex s) of
             Inl e \<Rightarrow> False
           | Inr rs \<Rightarrow> (case token0 w (pairAddress dex s) of Inl e \<Rightarrow> False | Inr t \<Rightarrow> True)))"

text \<open>
  The messages handed to the notification service so far, in order.
\<close>

definition posts :: "state \<Rightarrow> string list" where
  "posts st = concat (map (\<lambda>e. case e of Post m \<Rightarrow> [m] | _ \<Rightarrow> []) (out st))"

text \<open>
  The tokens of the monitored pairs with the decimals the configuration gives them,
  and the base and the quote token of each pair. These follow the description of the
  normalisation (8 decimals for WBTC, 18 for ETH and DAI, 6 for USDT); the source has
  them only as the two conditionals of fetchDexPrice.
\<close>

datatype token = WBTC | ETH | DAI | USDT





text \<open>
  A sample world. The ETH/USDT pools of the two exchanges hold reserves that price ETH at
  100 and at 102 USDT, the WBTC/USDT pool of the first exchange prices WBTC at 50000 USDT,
  every other pool call throws, and so does every factory call.
\<close>

definition demo_world :: world where
  "demo_world =
     \<lparr>getReserves = (\<lambda>a.
        if a = ''0x0d4a11d5eeaac28ec3f61d100daf4d40471f1852'' then Inr (10 ^ 18, 100 * 10 ^ 6)
        else if a = ''0x06da0fd433c1a5d7a4faa01111c044910a184553'' then Inr (10 ^ 18, 102 * 10 ^ 6)
        else if a = ''0x004375dff511095cc5a197a54140a24efef3a416'' then Inr (2 * 10 ^ 8, 100000 * 10 ^ 6)
        else Inl (JsError ''call revert exception'')),
      token0 = (\<lambda>a. Inr ''0xC02aaA39b223FE8D0A0e5C4F27eAD9083C756Cc2''),
      feeTo = (\<lambda>a. Inl (JsError ''missing revert data'')),
      axiosPost = (\<lambda>m. Inr (200, ''[object Object]'')),
      toISOString = (\<lambda>t. ''2024-01-01T00:00:05.000Z''),
      numberToString = (\<lambda>x. ''1e+21''),
      formatUnits = (\<lambda>v d. show_nat v)\<rparr>"

text \<open>
  A sample state: five seconds on the clock, no call made yet, nothing written.
\<close>

definition idle_state :: state where
  "idle_state = \<lparr>clock = 5000, lastCallTime = 0, out = []\<rparr>"


text \<open>
  Sample quotes.
\<close>

definition quote_A :: PriceData where
  "quote_A = \<lparr>exchange = ''A'', symbol = ETH_USDT, bid = Fin 99, ask = Fin 100,
               tradingFee = Fin 0.003, timestamp = 0\<rparr>"

definition quote_B :: PriceData where
  "quote_B = \<lparr>exchange = ''B'', symbol = ETH_USDT, bid = Fin 102, ask = Fin 101,
               tradingFee = Fin 0.003, timestamp = 0\<rparr>"

definition quote_B_tied :: PriceData where
  "quote_B_tied = \<lparr>exchange = ''B'', symbol = ETH_USDT, bid = Fin 102, ask = Fin 100,
               tradingFee = Fin 0.003, timestamp = 0\<rparr>"

definition quote_Q :: PriceData where
  "quote_Q = \<lparr>exchange = ''Q'', symbol = ETH_USDT, bid = Fin 100.5, ask = Fin 100,
               tradingFee = Fin 0.003, timestamp = 0\<rparr>"

definition quote_X :: PriceData where
  "quote_X = \<lparr>exchange = ''X'', symbol = ETH_USDT, bid = Fin 99, ask = Fin 101,
               tradingFee = Fin 0.003, timestamp = 0\<rparr>"

text \<open>
  The scan took the branch of the profitable opportunity.
\<close>

definition is_opportunity :: "outcome \<Rightarrow> bool" where
  "is_opportunity oc = (case oc of Opportunity ev \<Rightarrow> True | _ \<Rightarrow> False)"

section \<open>Lemmas and theorems\<close>

subsection \<open>Effects of the helper functions\<close>

lemma applyRateLimit_out: "out (applyRateLimit st) = out st"
  by (simp add: applyRateLimit_def Let_def)



lemma posts_logMessage: "posts (logMessage t m st) = posts st"
  by (simp add: posts_def logMessage_def)

lemma posts_applyRateLimit: "posts (applyRateLimit st) = posts st"
  by (simp add: posts_def applyRateLimit_out)

lemma clock_logMessage: "clock (logMessage t m st) = clock st"
  and last_logMessage: "lastCallTime (logMessage t m st) = lastCallTime st"
  by (simp_all add: logMessage_def)

subsection \<open>What a fetch returns\<close>

lemma fetchTradingFee_result:
  "\<exists>st'. fetchTradingFee w dexes d a st = (st', Inr (Fin 0.003)) \<and>
         clock st' = clock (applyRateLimit st) \<and>
         lastCallTime st' = lastCallTime (applyRateLimit st) \<and>
         posts st' = posts st"
  by (auto simp: fetchTradingFee_def fetchTradingFee_try_def Let_def posts_logMessage
        posts_applyRateLimit clock_logMessage last_logMessage split: option.splits sum.splits)

lemma fetchDexPrice_ok:
  assumes "map_of dexes d = Some dex"
    and "getReserves w (pairAddress dex s) = Inr (r0, r1)"
    and "token0 w (pairAddress dex s) = Inr t0"
  shows "\<exists>st'. fetchDexPrice w dexes d s st =
           (st', Inr (Some \<lparr>exchange = d, symbol = s,
                            bid = jmul (price s r0 r1) (Fin 0.998),
                            ask = jmul (price s r0 r1) (Fin 1.002),
                            tradingFee = Fin 0.003, timestamp = clock st'\<rparr>)) \<and>
           posts st' = posts st"
proof -
  obtain st2 where f: "fetchTradingFee w dexes d (pairAddress dex s) (applyRateLimit st) = (st2, Inr (Fin 0.003))"
    and p: "posts st2 = posts (applyRateLimit st)"
    using fetchTradingFee_result by blast
  show ?thesis
    using assms f p
    by (simp add: fetchDexPrice_def fetchDexPrice_try_def Let_def posts_applyRateLimit)
qed

lemma fetchDexPrice_fail:
  assumes "\<not> fetchable w dexes s d"
  shows "\<exists>st'. fetchDexPrice w dexes d s st = (st', Inr None) \<and> posts st' = posts st"
  using assms
  by (auto simp: fetchable_def fetchDexPrice_def fetchDexPrice_try_def Let_def
        posts_logMessage posts_applyRateLimit split: option.splits sum.splits)

lemma fetchable_cases:
  assumes "fetchable w dexes s d"
  obtains dex r0 r1 t0 where "map_of dexes d = Some dex"
    and "getReserves w (pairAddress dex s) = Inr (r0, r1)"
    and "token0 w (pairAddress dex s) = Inr t0"
  using assms by (auto simp: fetchable_def split: option.splits sum.splits)

lemma fetchDexPrice_total:
  "\<exists>st' r. fetchDexPrice w dexes d s st = (st', Inr r) \<and> posts st' = posts st \<and>
     (r \<noteq> None) = fetchable w dexes s d \<and> (\<forall>q. r = Some q \<longrightarrow> exchange q = d)"
proof (cases "fetchable w dexes s d")
  case True
  then obtain dex r0 r1 t0 where "map_of dexes d = Some dex"
    "getReserves w (pairAddress dex s) = Inr (r0, r1)" "token0 w (pairAddress dex s) = Inr t0"
    by (rule fetchable_cases)
  from fetchDexPrice_ok [OF this, of st] obtain st' q where
    "fetchDexPrice w dexes d s st = (st', Inr (Some q))" "exchange q = d" "posts st' = posts st"
    by force
  with True show ?thesis by simp
next
  case False
  from fetchDexPrice_fail [OF this, of st] obtain st' where
    "fetchDexPrice w dexes d s st = (st', Inr None)" "posts st' = posts st" by blast
  with False show ?thesis by simp
qed

subsection \<open>The results of one scan\<close>

lemma fetchAll_total:
  "\<exists>st' rs. fetchAll w dexes s keys st = (st', Inr rs) \<and> posts st' = posts st \<and>
     length rs = length keys \<and>
     map exchange (map the (filter (\<lambda>r. r \<noteq> None) rs)) = filter (fetchable w dexes s) keys"
proof (induction keys arbitrary: st)
  case Nil
  show ?case by simp
next
  case (Cons d keys)
  obtain st1 r where h: "fetchDexPrice w dexes d s st = (st1, Inr r)" "posts st1 = posts st"
    "(r \<noteq> None) = fetchable w dexes s d" "\<forall>q. r = Some q \<longrightarrow> exchange q = d"
    using fetchDexPrice_total [of w dexes d s st] by (elim exE conjE)
  obtain st2 rs where t: "fetchAll w dexes s keys st1 = (st2, Inr rs)" "posts st2 = posts st1"
    "length rs = length keys"
    "map exchange (map the (filter (\<lambda>r. r \<noteq> None) rs)) = filter (fetchable w dexes s) keys"
    using Cons.IH [of st1] by (elim exE conjE)
  have "fetchAll w dexes s (d # keys) st = (st2, Inr (r # rs))"
    using h(1) t(1) by simp
  moreover have "posts st2 = posts st" using h(2) t(2) by simp
  moreover have "length (r # rs) = length (d # keys)" using t(3) by simp
  moreover have "map exchange (map the (filter (\<lambda>r. r \<noteq> None) (r # rs))) =
      filter (fetchable w dexes s) (d # keys)"
  proof (cases r)
    case None
    with h(3) t(4) show ?thesis by simp
  next
    case (Some q)
    with h(3,4) t(4) show ?thesis by simp
  qed
  ultimately show ?case by (intro exI conjI)
qed

lemma collect_total:
  "\<exists>st' qs. collect w dexes s st = (st', Inr qs) \<and> posts st' = posts st \<and>
     map exchange qs = filter (fetchable w dexes s) (map fst dexes)"
proof -
  obtain st' rs where "fetchAll w dexes s (map fst dexes) st = (st', Inr rs)" "posts st' = posts st"
    "length rs = length (map fst dexes)"
    "map exchange (map the (filter (\<lambda>r. r \<noteq> None) rs)) = filter (fetchable w dexes s) (map fst dexes)"
    using fetchAll_total [of w dexes s "map fst dexes" st] by (elim exE conjE)
  then show ?thesis by (simp add: collect_def)
qed

lemma evaluate_nonempty: "qs \<noteq> [] \<Longrightarrow> \<exists>ev. evaluate qs = Inr ev"
  by (cases qs) (simp_all add: evaluate_def reduce_def Let_def)

lemma evaluate_empty: "\<exists>e. evaluate [] = Inl e"
  by (simp add: evaluate_def reduce_def)

lemma posts_sendTelegramMessage: "posts (sendTelegramMessage w m st) = posts st @ [m]"
  by (simp add: sendTelegramMessage_def posts_def console_log_def Let_def split: sum.splits prod.splits)

lemma report_cases:
  assumes "evaluate qs = Inr ev"
  shows "\<exists>st'. report w s t qs st =
           (st', Inr (if profitable ev then Opportunity ev else MarketUpdate ev)) \<and>
         posts st' = posts st @
           [if profitable ev
            then formatArbitrageMessage w st s (lowestAsk ev) (highestBid ev)
                   (buyFee ev) (sellFee ev) (profitAfterFees ev) (profitPercentage ev)
            else formatNonProfitableMessage w st s (lowestAsk ev) (highestBid ev)
                   (buyFee ev) (sellFee ev) (profit ev) (profitAfterFees ev)
                   (profitPercentage ev) t]"
proof -
  have ne: "qs \<noteq> []" using assms evaluate_empty by auto
  show ?thesis
    using assms ne
    by (simp add: report_def profitable_def Let_def posts_sendTelegramMessage posts_logMessage)
qed

lemma report_empty:
  "\<exists>st'. report w s t [] st = (st', Inr NoData) \<and>
     posts st' = posts st @ [warning_sign @ '' No data for '' @ pair_name s]"
  by (simp add: report_def posts_sendTelegramMessage posts_logMessage)


subsection \<open>Rate limiting (C2)\<close>



subsection \<open>Fee fallback (C3)\<close>

text \<open>
  C3. When the fee lookup of a fetch throws (the factory call fails after the exchange
  was found and its pair contract answered), the lookup itself returns 0.003 and the
  fetch returns a quote whose fee is 0.003: nothing is thrown out of the fetch.
\<close>

theorem fee_fallback:
  assumes "map_of dexes dexName = Some dex"
    and "getReserves w (pairAddress dex s) = Inr (r0, r1)"
    and "token0 w (pairAddress dex s) = Inr t0"
    and "feeTo w (factory dex) = Inl e"
  shows "(\<exists>st1. fetchTradingFee w dexes dexName (pairAddress dex s) st = (st1, Inr (Fin 0.003))) \<and>
         (\<exists>st' q. fetchDexPrice w dexes dexName s st = (st', Inr (Some q)) \<and>
                   tradingFee q = Fin 0.003)"
proof
  show "\<exists>st1. fetchTradingFee w dexes dexName (pairAddress dex s) st = (st1, Inr (Fin 0.003))"
    using assms(1,4) by (simp add: fetchTradingFee_def fetchTradingFee_try_def Let_def)
next
  obtain st' where "fetchDexPrice w dexes dexName s st =
           (st', Inr (Some \<lparr>exchange = dexName, symbol = s,
                            bid = jmul (price s r0 r1) (Fin 0.998),
                            ask = jmul (price s r0 r1) (Fin 1.002),
                            tradingFee = Fin 0.003, timestamp = clock st'\<rparr>))"
    using fetchDexPrice_ok [OF assms(1-3), of st] by (elim exE conjE)
  then show "\<exists>st' q. fetchDexPrice w dexes dexName s st = (st', Inr (Some q)) \<and>
                   tradingFee q = Fin 0.003"
    by simp
qed

theorem fee_fallback_witness:
  "(\<exists>st1. fetchTradingFee demo_world DEXES ''uniswap''
            ''0x0d4a11d5eeaac28ec3f61d100daf4d40471f1852'' idle_state = (st1, Inr (Fin 0.003))) \<and>
   (\<exists>st' q. fetchDexPrice demo_world DEXES ''uniswap'' ETH_USDT idle_state = (st', Inr (Some q)) \<and>
             tradingFee q = Fin 0.003)"
  using fee_fallback [of DEXES "''uniswap''" "snd (hd DEXES)" demo_world ETH_USDT
      "10 ^ 18" "100 * 10 ^ 6" "''0xC02aaA39b223FE8D0A0e5C4F27eAD9083C756Cc2''"
      "JsError ''missing revert data''" idle_state]
  by (simp add: DEXES_def demo_world_def)

subsection \<open>Partial failure of the sources (C4)\<close>


lemma scanArbitrage_result:
  assumes "collect w dexes s st = (st1, Inr qs)" "evaluate qs = Inr ev"
  shows "\<exists>st2. scanArbitrage w dexes s t st =
           (st2, if profitable ev then Opportunity ev else MarketUpdate ev) \<and>
         posts st2 = posts st1 @
           [if profitable ev
            then formatArbitrageMessage w st1 s (lowestAsk ev) (highestBid ev)
                   (buyFee ev) (sellFee ev) (profitAfterFees ev) (profitPercentage ev)
            else formatNonProfitableMessage w st1 s (lowestAsk ev) (highestBid ev)
                   (buyFee ev) (sellFee ev) (profit ev) (profitAfterFees ev)
                   (profitPercentage ev) t]"
proof -
  obtain st2 where "report w s t qs st1 =
           (st2, Inr (if profitable ev then Opportunity ev else MarketUpdate ev))"
    "posts st2 = posts st1 @
           [if profitable ev
            then formatArbitrageMessage w st1 s (lowestAsk ev) (highestBid ev)
                   (buyFee ev) (sellFee ev) (profitAfterFees ev) (profitPercentage ev)
            else formatNonProfitableMessage w st1 s (lowestAsk ev) (highestBid ev)
                   (buyFee ev) (sellFee ev) (profit ev) (profitAfterFees ev)
                   (profitPercentage ev) t]"
    using report_cases [OF assms(2), of w s t st1] by (elim exE conjE)
  then show ?thesis using assms(1) by (simp add: scanArbitrage_def)
qed

lemma scanArbitrage_empty:
  assumes "collect w dexes s st = (st1, Inr [])"
  shows "\<exists>st2. scanArbitrage w dexes s t st = (st2, NoData) \<and>
         posts st2 = posts st1 @ [warning_sign @ '' No data for '' @ pair_name s]"
proof -
  obtain st2 where "report w s t [] st1 = (st2, Inr NoData)"
    "posts st2 = posts st1 @ [warning_sign @ '' No data for '' @ pair_name s]"
    using report_empty [of w s t st1] by (elim exE conjE)
  then show ?thesis using assms by (simp add: scanArbitrage_def)
qed




subsection \<open>No data (C5)\<close>

text \<open>
  C5. With no valid result the scan reports no data: it neither throws nor evaluates,
  and it posts the one message that says that there is no data for the pair. This holds
  of the reporting part of scanArbitrage on the empty list and of a whole scan whose
  fetches all fail.
\<close>

theorem no_data:
  "(\<exists>st'. report w s t [] st = (st', Inr NoData) \<and>
      posts st' = posts st @ [warning_sign @ '' No data for '' @ pair_name s]) \<and>
   (collect w dexes s st = (st1, Inr []) \<longrightarrow>
      (\<exists>st2. scanArbitrage w dexes s t st = (st2, NoData) \<and>
         posts st2 = posts st1 @ [warning_sign @ '' No data for '' @ pair_name s]))"
  using report_empty [of w s t st] scanArbitrage_empty [of w dexes s st st1 t]
  by simp

theorem no_data_witness:
  "\<exists>st2. scanArbitrage demo_world DEXES ETH_DAI False idle_state = (st2, NoData) \<and>
     posts st2 = [warning_sign @ '' No data for ETH/DAI'']"
proof -
  obtain st1 qs where c: "collect demo_world DEXES ETH_DAI idle_state = (st1, Inr qs)"
    "posts st1 = posts idle_state"
    "map exchange qs = filter (fetchable demo_world DEXES ETH_DAI) (map fst DEXES)"
    using collect_total [of demo_world DEXES ETH_DAI idle_state] by (elim exE conjE)
  have "filter (fetchable demo_world DEXES ETH_DAI) (map fst DEXES) = []"
    by (simp add: fetchable_def DEXES_def demo_world_def)
  with c(3) have "qs = []" by simp
  with c(1) have e: "collect demo_world DEXES ETH_DAI idle_state = (st1, Inr [])" by simp
  have p: "posts st1 = []" using c(2) by (simp add: posts_def idle_state_def)
  show ?thesis
    using no_data [of demo_world ETH_DAI False idle_state DEXES st1] e p by simp
qed

subsection \<open>Prices from reserves (C6, C10)\<close>

lemma fetchDexPrice_some:
  assumes "fetchDexPrice w dexes d s st = (st', Inr (Some q))"
  shows "\<exists>dex r0 r1 t0. map_of dexes d = Some dex \<and>
           getReserves w (pairAddress dex s) = Inr (r0, r1) \<and>
           token0 w (pairAddress dex s) = Inr t0 \<and>
           q = \<lparr>exchange = d, symbol = s,
                 bid = jmul (price s r0 r1) (Fin 0.998),
                 ask = jmul (price s r0 r1) (Fin 1.002),
                 tradingFee = Fin 0.003, timestamp = clock st'\<rparr>"
proof (cases "fetchable w dexes s d")
  case True
  then obtain dex r0 r1 t0 where ok: "map_of dexes d = Some dex"
    "getReserves w (pairAddress dex s) = Inr (r0, r1)" "token0 w (pairAddress dex s) = Inr t0"
    by (rule fetchable_cases)
  obtain st2 where "fetchDexPrice w dexes d s st =
           (st2, Inr (Some \<lparr>exchange = d, symbol = s,
                            bid = jmul (price s r0 r1) (Fin 0.998),
                            ask = jmul (price s r0 r1) (Fin 1.002),
                            tradingFee = Fin 0.003, timestamp = clock st2\<rparr>))"
    using fetchDexPrice_ok [OF ok, of st] by (elim exE conjE)
  with assms have "q = \<lparr>exchange = d, symbol = s,
                 bid = jmul (price s r0 r1) (Fin 0.998),
                 ask = jmul (price s r0 r1) (Fin 1.002),
                 tradingFee = Fin 0.003, timestamp = clock st'\<rparr>" by auto
  with ok show ?thesis by (intro exI conjI)
next
  case False
  obtain st2 where "fetchDexPrice w dexes d s st = (st2, Inr None)"
    using fetchDexPrice_fail [OF False, of st] by (elim exE conjE)
  with assms show ?thesis by simp
qed


lemma demo_fetch:
  "\<exists>st'. fetchDexPrice demo_world DEXES ''uniswap'' WBTC_USDT idle_state =
     (st', Inr (Some \<lparr>exchange = ''uniswap'', symbol = WBTC_USDT,
                      bid = Fin 49900, ask = Fin 50100,
                      tradingFee = Fin 0.003, timestamp = clock st'\<rparr>))"
proof -
  have 1: "map_of DEXES ''uniswap'' = Some (snd (hd DEXES))"
    by (simp add: DEXES_def)
  have 2: "getReserves demo_world (pairAddress (snd (hd DEXES)) WBTC_USDT) =
      Inr (2 * 10 ^ 8, 100000 * 10 ^ 6)"
    by (simp add: DEXES_def demo_world_def)
  have 3: "token0 demo_world (pairAddress (snd (hd DEXES)) WBTC_USDT) =
      Inr ''0xC02aaA39b223FE8D0A0e5C4F27eAD9083C756Cc2''"
    by (simp add: demo_world_def)
  have 4: "price WBTC_USDT (2 * 10 ^ 8) (100000 * 10 ^ 6) = Fin 50000"
    by (simp add: price_def units_def decimals0_def decimals1_def)
  obtain st' where "fetchDexPrice demo_world DEXES ''uniswap'' WBTC_USDT idle_state =
     (st', Inr (Some \<lparr>exchange = ''uniswap'', symbol = WBTC_USDT,
                      bid = jmul (price WBTC_USDT (2 * 10 ^ 8) (100000 * 10 ^ 6)) (Fin 0.998),
                      ask = jmul (price WBTC_USDT (2 * 10 ^ 8) (100000 * 10 ^ 6)) (Fin 1.002),
                      tradingFee = Fin 0.003, timestamp = clock st'\<rparr>))"
    using fetchDexPrice_ok [OF 1 2 3, of idle_state] by (elim exE conjE)
  then show ?thesis unfolding 4 by simp
qed


lemma spread_not_crossed: "\<not> jgt (jmul (price s r0 r1) (Fin 0.998)) (jmul (price s r0 r1) (Fin 1.002))"
proof -
  have "price s r0 r1 = NaN \<or> price s r0 r1 = PosInf \<or> (\<exists>m\<ge>0. price s r0 r1 = Fin m)"
    by (simp add: price_def units_def Let_def)
  then show ?thesis by (auto simp: jgt_def)
qed

text \<open>
  C10. A quote returned by a successful fetch is never crossed: its bid is not greater
  than its ask. When the price computed from the reserves is a finite number, that
  number is not negative and the bid is at most the ask. The fetch is the same text in
  the two variants of the scanner.
\<close>

theorem quote_not_crossed:
  assumes "fetchDexPrice w dexes d s st = (st', Inr (Some q))"
    and "map_of dexes d = Some dex"
    and "getReserves w (pairAddress dex s) = Inr (reserve0, reserve1)"
  shows "(price s reserve0 reserve1 = Fin m \<longrightarrow> 0 \<le> m \<and> jle (bid q) (ask q)) \<and>
         \<not> jgt (bid q) (ask q)"
proof -
  obtain dex' r0 r1 where h: "map_of dexes d = Some dex'"
    "getReserves w (pairAddress dex' s) = Inr (r0, r1)"
    "q = \<lparr>exchange = d, symbol = s,
                 bid = jmul (price s r0 r1) (Fin 0.998),
                 ask = jmul (price s r0 r1) (Fin 1.002),
                 tradingFee = Fin 0.003, timestamp = clock st'\<rparr>"
    using fetchDexPrice_some [OF assms(1)] by (elim exE conjE)
  have eq: "r0 = reserve0" "r1 = reserve1" using h(1,2) assms(2,3) by simp_all
  have nonneg: "price s reserve0 reserve1 = Fin m \<longrightarrow> 0 \<le> m"
    by (auto simp: price_def units_def Let_def split: if_splits)
  have "price s reserve0 reserve1 = Fin m \<longrightarrow> jle (bid q) (ask q)"
    using nonneg h(3) eq by auto
  moreover have "\<not> jgt (bid q) (ask q)"
    using h(3) eq spread_not_crossed by simp
  ultimately show ?thesis using nonneg by simp
qed

theorem quote_not_crossed_witness:
  "\<exists>st' q. fetchDexPrice demo_world DEXES ''uniswap'' WBTC_USDT idle_state = (st', Inr (Some q)) \<and>
     price WBTC_USDT (2 * 10 ^ 8) (100000 * 10 ^ 6) = Fin 50000 \<and>
     (0::real) \<le> 50000 \<and> jle (bid q) (ask q) \<and> \<not> jgt (bid q) (ask q)"
proof -
  have 1: "map_of DEXES ''uniswap'' = Some (snd (hd DEXES))"
    by (simp add: DEXES_def)
  have 2: "getReserves demo_world (pairAddress (snd (hd DEXES)) WBTC_USDT) =
      Inr (2 * 10 ^ 8, 100000 * 10 ^ 6)"
    by (simp add: DEXES_def demo_world_def)
  have 4: "price WBTC_USDT (2 * 10 ^ 8) (100000 * 10 ^ 6) = Fin 50000"
    by (simp add: price_def units_def decimals0_def decimals1_def)
  obtain st' q where f:
    "fetchDexPrice demo_world DEXES ''uniswap'' WBTC_USDT idle_state = (st', Inr (Some q))"
    using demo_fetch by (elim exE)
  show ?thesis
    using f 4 quote_not_crossed [OF f 1 2, of 50000] by (intro exI [of _ st'] exI [of _ q]) simp
qed

subsection \<open>One quote bought and sold (C8)\<close>

text \<open>
  The fold of a selection keeps an accumulator that no later element beats, and its
  result is always one of the elements.
\<close>

lemma foldl_keep:
  "\<forall>p\<in>set post. \<not> better p acc \<Longrightarrow>
     foldl (\<lambda>m c. if better c m then c else m) acc post = acc"
  by (induction post) simp_all

lemma foldl_member:
  "foldl (\<lambda>m c. if better c m then c else m) x xs \<in> set (x # xs)"
proof (induction xs arbitrary: x)
  case Nil
  show ?case by simp
next
  case (Cons y ys)
  show ?case using Cons.IH [of "if better y x then y else x"] by auto
qed

lemma reduce_first_best:
  assumes "\<forall>p\<in>set pre. better q p" and "\<forall>p\<in>set post. \<not> better p q"
  shows "reduce (\<lambda>m c. if better c m then c else m) (pre @ q # post) = Inr q"
proof (cases pre)
  case Nil
  then show ?thesis using assms(2) by (simp add: reduce_def foldl_keep)
next
  case (Cons x rest)
  let ?f = "\<lambda>m c. if better c m then c else m"
  have "foldl ?f x rest \<in> set pre" using foldl_member [of better x rest] Cons by simp
  then have "better q (foldl ?f x rest)" using assms(1) by simp
  then have "foldl ?f x (rest @ q # post) = foldl ?f q post" by simp
  then show ?thesis using Cons assms(2) by (simp add: reduce_def foldl_keep)
qed

text \<open>
  C8 (as amended). When one quote has an ask strictly below the ask of every quote
  before it and not above the ask of any quote after it, and a bid strictly above the
  bid of every quote before it and not below the bid of any quote after it (it is the
  first quote with the least ask and the first with the greatest bid), the evaluation
  selects it both to buy and to sell, computes profit, fees and percentage by the same
  formulas, and the scan ends as an opportunity or a market update, not as an error.
\<close>

theorem same_source_pick:
  assumes "\<forall>p\<in>set pre. jlt (ask q) (ask p) \<and> jgt (bid q) (bid p)"
    and "\<forall>p\<in>set post. \<not> jlt (ask p) (ask q) \<and> \<not> jgt (bid p) (bid q)"
  shows "\<exists>ev. evaluate (pre @ q # post) = Inr ev \<and>
           lowestAsk ev = q \<and> highestBid ev = q \<and>
           profit ev = jsub (bid q) (ask q) \<and>
           buyFee ev = jmul (ask q) (tradingFee q) \<and>
           sellFee ev = jmul (bid q) (tradingFee q) \<and>
           profitAfterFees ev = jsub (jsub (profit ev) (buyFee ev)) (sellFee ev) \<and>
           profitPercentage ev = jmul (jdiv (profitAfterFees ev) (ask q)) (Fin 100) \<and>
           (\<exists>st'. report w s t (pre @ q # post) st =
                    (st', Inr (if profitable ev then Opportunity ev else MarketUpdate ev)))"
proof -
  have lo: "reduce (\<lambda>min curr. if jlt (ask curr) (ask min) then curr else min) (pre @ q # post) = Inr q"
    using assms by (intro reduce_first_best [where better = "\<lambda>c m. jlt (ask c) (ask m)"]) simp_all
  have hi: "reduce (\<lambda>max curr. if jgt (bid curr) (bid max) then curr else max) (pre @ q # post) = Inr q"
    using assms by (intro reduce_first_best [where better = "\<lambda>c m. jgt (bid c) (bid m)"]) simp_all
  define ev where "ev = \<lparr>lowestAsk = q, highestBid = q, buyPrice = ask q, sellPrice = bid q,
      profit = jsub (bid q) (ask q), buyFee = jmul (ask q) (tradingFee q),
      sellFee = jmul (bid q) (tradingFee q),
      profitAfterFees = jsub (jsub (jsub (bid q) (ask q)) (jmul (ask q) (tradingFee q)))
                             (jmul (bid q) (tradingFee q)),
      profitPercentage = jmul (jdiv (jsub (jsub (jsub (bid q) (ask q)) (jmul (ask q) (tradingFee q)))
                             (jmul (bid q) (tradingFee q))) (ask q)) (Fin 100)\<rparr>"
  have e: "evaluate (pre @ q # post) = Inr ev"
    by (simp add: evaluate_def lo hi Let_def ev_def)
  obtain st' where r: "report w s t (pre @ q # post) st =
                    (st', Inr (if profitable ev then Opportunity ev else MarketUpdate ev))"
    using report_cases [OF e, of w s t st] by (elim exE conjE)
  show ?thesis
    using e r by (intro exI [of _ ev]) (simp add: ev_def)
qed

text \<open>
  C8 as stated fails when asks are tied: in \<open>[A, B]\<close> with equal asks, B has the
  least ask and the greatest bid, yet the evaluation buys at A, the first quote with
  the least ask, and sells at B.
\<close>

theorem same_source_tie:
  "jle (ask quote_B_tied) (ask quote_A) \<and> jle (ask quote_B_tied) (ask quote_B_tied) \<and>
   jle (bid quote_A) (bid quote_B_tied) \<and> jle (bid quote_B_tied) (bid quote_B_tied) \<and>
   map_sum id lowestAsk (evaluate [quote_A, quote_B_tied]) = Inr quote_A \<and>
   map_sum id highestBid (evaluate [quote_A, quote_B_tied]) = Inr quote_B_tied \<and>
   quote_A \<noteq> quote_B_tied"
  by (simp add: evaluate_def reduce_def Let_def quote_A_def quote_B_tied_def jgt_def)

theorem same_source_pick_witness:
  "\<exists>ev. evaluate [quote_X, quote_Q, quote_A] = Inr ev \<and>
      lowestAsk ev = quote_Q \<and> highestBid ev = quote_Q \<and>
      profit ev = Fin 0.5 \<and> buyFee ev = Fin 0.3 \<and> sellFee ev = Fin 0.3015 \<and>
      profitAfterFees ev = Fin (- 0.1015) \<and> profitPercentage ev = Fin (- 0.1015) \<and>
      (\<exists>st'. report demo_world ETH_USDT False [quote_X, quote_Q, quote_A] idle_state =
               (st', Inr (MarketUpdate ev)))"
proof -
  have pre: "\<forall>p\<in>set [quote_X]. jlt (ask quote_Q) (ask p) \<and> jgt (bid quote_Q) (bid p)"
    by (simp add: quote_X_def quote_Q_def jgt_def)
  have post: "\<forall>p\<in>set [quote_A]. \<not> jlt (ask p) (ask quote_Q) \<and> \<not> jgt (bid p) (bid quote_Q)"
    by (simp add: quote_A_def quote_Q_def jgt_def)
  obtain ev st' where h: "evaluate ([quote_X] @ quote_Q # [quote_A]) = Inr ev"
    "lowestAsk ev = quote_Q" "highestBid ev = quote_Q"
    "profit ev = jsub (bid quote_Q) (ask quote_Q)"
    "buyFee ev = jmul (ask quote_Q) (tradingFee quote_Q)"
    "sellFee ev = jmul (bid quote_Q) (tradingFee quote_Q)"
    "profitAfterFees ev = jsub (jsub (profit ev) (buyFee ev)) (sellFee ev)"
    "profitPercentage ev = jmul (jdiv (profitAfterFees ev) (ask quote_Q)) (Fin 100)"
    "report demo_world ETH_USDT False ([quote_X] @ quote_Q # [quote_A]) idle_state =
                    (st', Inr (if profitable ev then Opportunity ev else MarketUpdate ev))"
    using same_source_pick [OF pre post, of demo_world ETH_USDT False idle_state]
    by (elim exE conjE)
  have p: "profit ev = Fin 0.5" using h(4) by (simp add: quote_Q_def jsub_def)
  have b: "buyFee ev = Fin 0.3" using h(5) by (simp add: quote_Q_def)
  have s: "sellFee ev = Fin 0.3015" using h(6) by (simp add: quote_Q_def)
  have n: "profitAfterFees ev = Fin (- 0.1015)" using h(7) p b s by (simp add: jsub_def)
  have c: "profitPercentage ev = Fin (- 0.1015)" using h(8) n by (simp add: quote_Q_def)
  have "\<not> profitable ev" using c by (simp add: profitable_def jgt_def)
  with h(9) have r: "\<exists>st'. report demo_world ETH_USDT False [quote_X, quote_Q, quote_A] idle_state =
               (st', Inr (MarketUpdate ev))" by simp
  show ?thesis
    using h(1,2,3) p b s n c r by (intro exI [of _ ev]) simp
qed

subsection \<open>The two variants of the formatter (C9)\<close>

lemma toFixed2_101: "toFixed2 w (Fin 101) = ''101.00''"
  by (simp add: show_nat.simps digit_def)

lemma toFixed2_102: "toFixed2 w (Fin 102) = ''102.00''"
  by (simp add: show_nat.simps digit_def)

lemma format_variants_agree:
  "(formatArbitrageMessage_js w st s lo hi bFee sFee after pct =
    formatArbitrageMessage w st s lo hi bFee sFee after pct)
   = (toFixed2 w (ask hi) = toFixed2 w (bid hi))"
  by (simp add: formatArbitrageMessage_js_def formatArbitrageMessage_def)

text \<open>
  C9. The two variants of \<open>formatArbitrageMessage\<close> differ on the quotes of C1: the
  TypeScript variant writes the bid of the selling quote on the Sell line (102.00), the
  JavaScript variant writes its ask (101.00). They agree exactly when the two prices
  have the same rendering.
\<close>

theorem format_variants_differ:
  "formatArbitrageMessage_js demo_world idle_state ETH_USDT quote_A quote_B
     (Fin 0.3) (Fin 0.306) (Fin 1.394) (Fin 1.394) \<noteq>
   formatArbitrageMessage demo_world idle_state ETH_USDT quote_A quote_B
     (Fin 0.3) (Fin 0.306) (Fin 1.394) (Fin 1.394)"
  by (simp add: format_variants_agree quote_B_def toFixed2_101 toFixed2_102 del: toFixed2.simps)

subsection \<open>Scans triggered by a swap (C7)\<close>

lemma report_flag_irrelevant:
  assumes "qs = [] \<or> (\<exists>ev. evaluate qs = Inr ev \<and> profitable ev)"
  shows "report w s t qs st = report w s t' qs st"
  using assms by (auto simp: report_def profitable_def Let_def)

lemma title_swap:
  "take 20 (formatNonProfitableMessage w st s lo hi bFee sFee prof after pct t) =
     bar_chart @ (if t then '' *SWAP DETECTED*'' else '' *MARKET UPDATE*'')"
  by (simp add: formatNonProfitableMessage_def bar_chart_def)

lemma scan_flag:
  "\<exists>st2 oc msg.
     scanArbitrage w dexes P True st = (st2, oc) \<and> posts st2 = posts st @ [msg] \<and>
     (case oc of
        MarketUpdate ev \<Rightarrow>
          take 20 msg = bar_chart @ '' *SWAP DETECTED*'' \<and>
          (\<exists>st3 msg'. scanArbitrage w dexes P False st = (st3, MarketUpdate ev) \<and>
             posts st3 = posts st @ [msg'] \<and> take 20 msg' = bar_chart @ '' *MARKET UPDATE*'')
      | _ \<Rightarrow> scanArbitrage w dexes P False st = (st2, oc))"
proof -
  obtain st1 qs where c: "collect w dexes P st = (st1, Inr qs)" "posts st1 = posts st"
    using collect_total [of w dexes P st] by (elim exE conjE)
  show ?thesis
  proof (cases "qs = []")
    case True
    have c0: "collect w dexes P st = (st1, Inr [])" using c(1) True by simp
    obtain st2 where e: "scanArbitrage w dexes P True st = (st2, NoData)"
      "posts st2 = posts st1 @ [warning_sign @ '' No data for '' @ pair_name P]"
      using scanArbitrage_empty [OF c0, of True] by (elim exE conjE)
    have "report w P True qs st1 = report w P False qs st1"
      using True by (intro report_flag_irrelevant) simp
    then have "scanArbitrage w dexes P False st = scanArbitrage w dexes P True st"
      using c(1) by (simp add: scanArbitrage_def)
    with e c(2) show ?thesis
      by (intro exI [of _ st2] exI [of _ NoData]
          exI [of _ "warning_sign @ '' No data for '' @ pair_name P"]) simp
  next
    case False
    then obtain ev where ev: "evaluate qs = Inr ev" using evaluate_nonempty by auto
    show ?thesis
    proof (cases "profitable ev")
      case True
      have "\<exists>st2. scanArbitrage w dexes P True st = (st2, Opportunity ev) \<and>
        posts st2 = posts st1 @
           [formatArbitrageMessage w st1 P (lowestAsk ev) (highestBid ev)
                   (buyFee ev) (sellFee ev) (profitAfterFees ev) (profitPercentage ev)]"
        using scanArbitrage_result [OF c(1) ev, of True] True by simp
      then obtain st2 where e: "scanArbitrage w dexes P True st = (st2, Opportunity ev)"
        "posts st2 = posts st1 @
           [formatArbitrageMessage w st1 P (lowestAsk ev) (highestBid ev)
                   (buyFee ev) (sellFee ev) (profitAfterFees ev) (profitPercentage ev)]"
        by (elim exE conjE)
      have "report w P True qs st1 = report w P False qs st1"
        using True ev by (intro report_flag_irrelevant) simp
      then have "scanArbitrage w dexes P False st = scanArbitrage w dexes P True st"
        using c(1) by (simp add: scanArbitrage_def)
      with e c(2) show ?thesis
        by (intro exI [of _ st2] exI [of _ "Opportunity ev"]
            exI [of _ "formatArbitrageMessage w st1 P (lowestAsk ev) (highestBid ev)
                   (buyFee ev) (sellFee ev) (profitAfterFees ev) (profitPercentage ev)"]) simp
    next
      case False
      have "\<exists>st2. scanArbitrage w dexes P True st = (st2, MarketUpdate ev) \<and>
        posts st2 = posts st1 @
           [formatNonProfitableMessage w st1 P (lowestAsk ev) (highestBid ev)
                   (buyFee ev) (sellFee ev) (profit ev) (profitAfterFees ev)
                   (profitPercentage ev) True]"
        using scanArbitrage_result [OF c(1) ev, of True] False by simp
      then obtain st2 where e: "scanArbitrage w dexes P True st = (st2, MarketUpdate ev)"
        "posts st2 = posts st1 @
           [formatNonProfitableMessage w st1 P (lowestAsk ev) (highestBid ev)
                   (buyFee ev) (sellFee ev) (profit ev) (profitAfterFees ev)
                   (profitPercentage ev) True]"
        by (elim exE conjE)
      have "\<exists>st3. scanArbitrage w dexes P False st = (st3, MarketUpdate ev) \<and>
        posts st3 = posts st1 @
           [formatNonProfitableMessage w st1 P (lowestAsk ev) (highestBid ev)
                   (buyFee ev) (sellFee ev) (profit ev) (profitAfterFees ev)
                   (profitPercentage ev) False]"
        using scanArbitrage_result [OF c(1) ev, of False] False by simp
      then obtain st3 where f: "scanArbitrage w dexes P False st = (st3, MarketUpdate ev)"
        "posts st3 = posts st1 @
           [formatNonProfitableMessage w st1 P (lowestAsk ev) (highestBid ev)
                   (buyFee ev) (sellFee ev) (profit ev) (profitAfterFees ev)
                   (profitPercentage ev) False]"
        by (elim exE conjE)
      have "\<exists>st3 msg'. scanArbitrage w dexes P False st = (st3, MarketUpdate ev) \<and>
             posts st3 = posts st @ [msg'] \<and> take 20 msg' = bar_chart @ '' *MARKET UPDATE*''"
        using f c(2)
        by (intro exI [of _ st3] exI [of _ "formatNonProfitableMessage w st1 P (lowestAsk ev)
              (highestBid ev) (buyFee ev) (sellFee ev) (profit ev) (profitAfterFees ev)
              (profitPercentage ev) False"]) (simp add: title_swap)
      with e c(2) show ?thesis
        by (intro exI [of _ st2] exI [of _ "MarketUpdate ev"]
            exI [of _ "formatNonProfitableMessage w st1 P (lowestAsk ev) (highestBid ev)
                   (buyFee ev) (sellFee ev) (profit ev) (profitAfterFees ev)
                   (profitPercentage ev) True"]) (simp add: title_swap)
    qed
  qed
qed

lemma listenersOn_DEXES:
  assumes "(dexName, dex) \<in> set DEXES"
  shows "listenersOn DEXES (pairAddress dex P) = [(P, dexName)]"
proof -
  from assms consider "(dexName, dex) = hd DEXES" | "(dexName, dex) = hd (tl DEXES)"
    by (auto simp: DEXES_def)
  then show ?thesis
  proof cases
    case 1
    then have "dexName = fst (hd DEXES)" "dex = snd (hd DEXES)" by (metis fst_conv, metis snd_conv)
    then show ?thesis
      by (cases P) (simp_all add: listenersOn_def setupEventListeners_def SYMBOLS_def DEXES_def)
  next
    case 2
    then have "dexName = fst (hd (tl DEXES))" "dex = snd (hd (tl DEXES))"
      by (metis fst_conv, metis snd_conv)
    then show ?thesis
      by (cases P) (simp_all add: listenersOn_def setupEventListeners_def SYMBOLS_def DEXES_def)
  qed
qed

lemma demo_collect:
  "snd (collect demo_world DEXES ETH_USDT idle_state) =
     Inr [\<lparr>exchange = ''uniswap'', symbol = ETH_USDT, bid = Fin 99.8, ask = Fin 100.2,
            tradingFee = Fin 0.003, timestamp = 6000\<rparr>,
          \<lparr>exchange = ''sushiswap'', symbol = ETH_USDT, bid = Fin 101.796, ask = Fin 102.204,
            tradingFee = Fin 0.003, timestamp = 8000\<rparr>]"
  by (simp add: collect_def fetchDexPrice_def fetchDexPrice_try_def fetchTradingFee_def
      fetchTradingFee_try_def applyRateLimit_def Let_def DEXES_def demo_world_def idle_state_def
      logMessage_def RATE_LIMIT_DELAY_def price_def units_def decimals0_def decimals1_def)

lemma scan_profitable_flag:
  assumes "snd (collect w dexes s st) = Inr qs" "evaluate qs = Inr ev" "profitable ev"
  shows "scanArbitrage w dexes s True st = scanArbitrage w dexes s False st \<and>
         is_opportunity (snd (scanArbitrage w dexes s True st))"
proof -
  obtain st1 where c: "collect w dexes s st = (st1, Inr qs)"
    using assms(1) by (cases "collect w dexes s st") simp
  have "report w s True qs st1 = report w s False qs st1"
    using assms(2,3) by (intro report_flag_irrelevant) simp
  then have same: "scanArbitrage w dexes s True st = scanArbitrage w dexes s False st"
    using c by (simp add: scanArbitrage_def)
  have "\<exists>st2. scanArbitrage w dexes s True st = (st2, Opportunity ev)"
    using scanArbitrage_result [OF c assms(2), of True] assms(3) by auto
  then have "is_opportunity (snd (scanArbitrage w dexes s True st))"
    by (auto simp: is_opportunity_def)
  with same show ?thesis by simp
qed

lemma demo_profitable:
  "\<exists>ev. evaluate
     [\<lparr>exchange = ''uniswap'', symbol = ETH_USDT, bid = Fin 99.8, ask = Fin 100.2,
            tradingFee = Fin 0.003, timestamp = 6000\<rparr>,
          \<lparr>exchange = ''sushiswap'', symbol = ETH_USDT, bid = Fin 101.796, ask = Fin 102.204,
            tradingFee = Fin 0.003, timestamp = 8000\<rparr>] = Inr ev \<and> profitable ev"
  by (simp add: evaluate_def reduce_def jgt_def jsub_def profitable_def Let_def)

text \<open>
  C7 as stated fails for a profitable result: in the sample world the scan of ETH/USDT
  ends as an opportunity, and it is the same with and without the trigger, message
  included.
\<close>

theorem opportunity_message_ignores_trigger:
  "scanArbitrage demo_world DEXES ETH_USDT True idle_state =
     scanArbitrage demo_world DEXES ETH_USDT False idle_state \<and>
   is_opportunity (snd (scanArbitrage demo_world DEXES ETH_USDT True idle_state))"
  using demo_profitable scan_profitable_flag [OF demo_collect] by (elim exE conjE)

lemma swapListener_scan:
  "\<exists>m. swapListener w dexes P d amounts st = scanArbitrage w dexes P True (logMessage Swap m st)"
proof (cases amounts)
  case (fields a0 a1 b0 b1)
  show ?thesis
    unfolding swapListener_def fields prod.case Let_def
    by (rule exI) (rule refl)
qed

text \<open>
  C7 (as amended). A Swap event of the pair contract of a pair P at an exchange of the
  table calls exactly one listener, which logs the swap and runs exactly one scan of P
  with \<open>triggerEvent = true\<close>; the scan posts exactly one message. When the scan ends
  as a market update, the message starts with the title SWAP DETECTED, where the scan
  without the trigger posts a message that starts with MARKET UPDATE. When it ends as an
  opportunity or with no data, the scan without the trigger does exactly the same: these
  messages do not show the trigger.
\<close>

theorem swap_event_cycle:
  assumes "(dexName, dex) \<in> set DEXES"
  shows "\<exists>st1 st2 oc msg.
     posts st1 = posts st \<and>
     emitSwap w DEXES (pairAddress dex P) amounts st = (st2, [oc]) \<and>
     scanArbitrage w DEXES P True st1 = (st2, oc) \<and>
     posts st2 = posts st @ [msg] \<and>
     (case oc of
        MarketUpdate ev \<Rightarrow>
          take 20 msg = bar_chart @ '' *SWAP DETECTED*'' \<and>
          (\<exists>st3 msg'. scanArbitrage w DEXES P False st1 = (st3, MarketUpdate ev) \<and>
             posts st3 = posts st @ [msg'] \<and> take 20 msg' = bar_chart @ '' *MARKET UPDATE*'')
      | _ \<Rightarrow> scanArbitrage w DEXES P False st1 = (st2, oc))"
proof -
  obtain m where l: "swapListener w DEXES P dexName amounts st =
      scanArbitrage w DEXES P True (logMessage Swap m st)"
    using swapListener_scan [of w DEXES P dexName amounts st] by (elim exE)
  define st1 where "st1 = logMessage Swap m st"
  have p: "posts st1 = posts st" by (simp add: st1_def posts_logMessage)
  obtain st2 oc msg where f: "scanArbitrage w DEXES P True st1 = (st2, oc)"
    "posts st2 = posts st1 @ [msg]"
    "(case oc of
        MarketUpdate ev \<Rightarrow>
          take 20 msg = bar_chart @ '' *SWAP DETECTED*'' \<and>
          (\<exists>st3 msg'. scanArbitrage w DEXES P False st1 = (st3, MarketUpdate ev) \<and>
             posts st3 = posts st1 @ [msg'] \<and> take 20 msg' = bar_chart @ '' *MARKET UPDATE*'')
      | _ \<Rightarrow> scanArbitrage w DEXES P False st1 = (st2, oc))"
    using scan_flag [of w DEXES P st1] by (elim exE conjE)
  have e: "emitSwap w DEXES (pairAddress dex P) amounts st = (st2, [oc])"
    using l f(1) by (simp add: emitSwap_def listenersOn_DEXES [OF assms] st1_def)
  show ?thesis
    using p e f [unfolded p]
    by (rule_tac x = st1 in exI, rule_tac x = st2 in exI, rule_tac x = oc in exI,
        rule_tac x = msg in exI) simp
qed

theorem swap_event_cycle_witness:
  "(''uniswap'', snd (hd DEXES)) \<in> set DEXES \<and>
   (\<exists>st1 st2 oc msg.
     posts st1 = posts idle_state \<and>
     emitSwap demo_world DEXES (pairAddress (snd (hd DEXES)) WBTC_USDT) (1, 0, 0, 5) idle_state
       = (st2, [oc]) \<and>
     scanArbitrage demo_world DEXES WBTC_USDT True st1 = (st2, oc) \<and>
     posts st2 = posts idle_state @ [msg] \<and>
     (case oc of
        MarketUpdate ev \<Rightarrow>
          take 20 msg = bar_chart @ '' *SWAP DETECTED*'' \<and>
          (\<exists>st3 msg'. scanArbitrage demo_world DEXES WBTC_USDT False st1 = (st3, MarketUpdate ev) \<and>
             posts st3 = posts idle_state @ [msg'] \<and>
             take 20 msg' = bar_chart @ '' *MARKET UPDATE*'')
      | _ \<Rightarrow> scanArbitrage demo_world DEXES WBTC_USDT False st1 = (st2, oc)))"
proof -
  have h: "(''uniswap'', snd (hd DEXES)) \<in> set DEXES" by (simp add: DEXES_def)
  show ?thesis
    using h swap_event_cycle [OF h, of idle_state demo_world WBTC_USDT "(1, 0, 0, 5)"]
    by (intro conjI)
qed

subsection \<open>The evaluation of two quotes (C1)\<close>

lemma two_quotes_values:
  "\<exists>ev. evaluate
     [\<lparr>exchange = ''A'', symbol = p, bid = Fin 99, ask = Fin 100,
       tradingFee = Fin 0.003, timestamp = t1\<rparr>,
      \<lparr>exchange = ''B'', symbol = p, bid = Fin 102, ask = Fin 101,
       tradingFee = Fin 0.003, timestamp = t2\<rparr>]
   = Inr ev \<and>
   exchange (lowestAsk ev) = ''A'' \<and> ask (lowestAsk ev) = Fin 100 \<and>
   exchange (highestBid ev) = ''B'' \<and> bid (highestBid ev) = Fin 102 \<and>
   profit ev = Fin 2 \<and> buyFee ev = Fin 0.3 \<and> sellFee ev = Fin 0.306 \<and>
   profitAfterFees ev = Fin 1.394 \<and> profitPercentage ev = Fin 1.394 \<and>
   profitable ev"
  by (simp add: evaluate_def reduce_def jgt_def jsub_def profitable_def Let_def)

text \<open>
  C1. For the two quotes \<open>{ask: 100, bid: 99, fee: 0.003}\<close> from source A and
  \<open>{ask: 101, bid: 102, fee: 0.003}\<close> from source B, the evaluation buys at A
  (the least ask, 100), sells at B (the greatest bid, 102), and computes a gross profit
  of 2, a buy fee of 0.3, a sell fee of 0.306, a net profit of 1.394 and a net profit
  percentage of 1.394; the result is classified as profitable and the scan takes the
  branch of the profitable opportunity.
\<close>

theorem evaluate_two_quotes:
  "\<exists>ev. evaluate
     [\<lparr>exchange = ''A'', symbol = p, bid = Fin 99, ask = Fin 100,
       tradingFee = Fin 0.003, timestamp = t1\<rparr>,
      \<lparr>exchange = ''B'', symbol = p, bid = Fin 102, ask = Fin 101,
       tradingFee = Fin 0.003, timestamp = t2\<rparr>]
   = Inr ev \<and>
   exchange (lowestAsk ev) = ''A'' \<and> ask (lowestAsk ev) = Fin 100 \<and>
   exchange (highestBid ev) = ''B'' \<and> bid (highestBid ev) = Fin 102 \<and>
   profit ev = Fin 2 \<and> buyFee ev = Fin 0.3 \<and> sellFee ev = Fin 0.306 \<and>
   profitAfterFees ev = Fin 1.394 \<and> profitPercentage ev = Fin 1.394 \<and>
   profitable ev \<and>
   (\<exists>st'. report w p t
     [\<lparr>exchange = ''A'', symbol = p, bid = Fin 99, ask = Fin 100,
       tradingFee = Fin 0.003, timestamp = t1\<rparr>,
      \<lparr>exchange = ''B'', symbol = p, bid = Fin 102, ask = Fin 101,
       tradingFee = Fin 0.003, timestamp = t2\<rparr>] st = (st', Inr (Opportunity ev)))"
proof -
  let ?qs = "[\<lparr>exchange = ''A'', symbol = p, bid = Fin 99, ask = Fin 100,
       tradingFee = Fin 0.003, timestamp = t1\<rparr>,
      \<lparr>exchange = ''B'', symbol = p, bid = Fin 102, ask = Fin 101,
       tradingFee = Fin 0.003, timestamp = t2\<rparr>]"
  obtain ev where v: "evaluate ?qs = Inr ev"
    "exchange (lowestAsk ev) = ''A''" "ask (lowestAsk ev) = Fin 100"
    "exchange (highestBid ev) = ''B''" "bid (highestBid ev) = Fin 102"
    "profit ev = Fin 2" "buyFee ev = Fin 0.3" "sellFee ev = Fin 0.306"
    "profitAfterFees ev = Fin 1.394" "profitPercentage ev = Fin 1.394" "profitable ev"
    using two_quotes_values [of p t1 t2] by (elim exE conjE)
  have "\<exists>st'. report w p t ?qs st = (st', Inr (Opportunity ev))"
    using report_cases [OF v(1), of w p t st] v(11) by auto
  with v show ?thesis by (intro exI [of _ ev] conjI)
qed

end
